theory Spec2Isabelle
  imports Main
begin

section \<open>The cache of src/Collections.ts over a remote JSON tree\<close>

text \<open>
  The development embeds the two classes of \<^verbatim>\<open>src/Collections.ts\<close>: \<^verbatim>\<open>Collection\<close>
  (one cached path) and \<^verbatim>\<open>RealTimeDB\<close> (the controller), with the helper
  \<^verbatim>\<open>objectToCollections\<close>. Mutation is explicit state passing: every method takes the
  object and the world and returns the updated ones. A method marked \<^verbatim>\<open>async\<close> returns a
  completion: it resolves with a value, rejects with an error, or stays blocked on a
  promise that is still pending.
\<close>

subsection \<open>Values\<close>

text \<open>
  What \<^verbatim>\<open>JSON.parse\<close> returns. A number is kept as an integer: the methods only ask
  whether it is zero. An object is the list of its entries in the order of
  \<^verbatim>\<open>Object.keys\<close>.
\<close>

datatype json =
    JNull
  | JBool bool
  | JNum int
  | JStr string
  | JArr "json list"
  | JObj "(string \<times> json) list"

text \<open>
  The errors thrown in the file: the three \<^verbatim>\<open>Error\<close> messages of \<^verbatim>\<open>initialize\<close>, each with
  the value its template interpolates, and the \<^verbatim>\<open>SyntaxError\<close> of \<^verbatim>\<open>JSON.parse\<close>.
\<close>

datatype error =
    FailedToFind string
  | PermissionDenied string
  | ErrorValidating json
  | SyntaxError

text \<open>The state of a \<^verbatim>\<open>Promise<void>\<close> held in a field.\<close>

datatype promise = Pending | Fulfilled | Rejected error

text \<open>The result of calling an \<^verbatim>\<open>async\<close> method in a given state.\<close>

datatype 'a completion = Resolved 'a | Threw error | Blocked

text \<open>
  \<^verbatim>\<open>type CacheData = string | number | boolean | null | CollectionMap\<close>, with \<^verbatim>\<open>undefined\<close>
  for a field never assigned and a parameter left out. A \<^verbatim>\<open>Collection\<close> has the fields
  \<^verbatim>\<open>cache\<close>, \<^verbatim>\<open>path\<close>, \<^verbatim>\<open>expiresAt\<close> (\<open>None\<close> while never assigned) and \<^verbatim>\<open>ready\<close>; its
  field \<^verbatim>\<open>db\<close> is a reference to the controller, which every method below takes as an
  argument instead. A \<^verbatim>\<open>Map<string, Collection>\<close> is the list of its entries in insertion
  order.
\<close>

datatype cache_data =
    Undefined
  | Json json
  | CollectionMap "(string \<times> collection) list"
and collection =
    Collection (cache: cache_data) (path: string) (expiresAt: "int option") (ready: promise)

definition set_cache :: "cache_data \<Rightarrow> collection \<Rightarrow> collection" where
  "set_cache v c = Collection v (path c) (expiresAt c) (ready c)"

definition set_expiresAt :: "int \<Rightarrow> collection \<Rightarrow> collection" where
  "set_expiresAt t c = Collection (cache c) (path c) (Some t) (ready c)"

definition set_ready :: "promise \<Rightarrow> collection \<Rightarrow> collection" where
  "set_ready p c = Collection (cache c) (path c) (expiresAt c) p"

text \<open>\<^verbatim>\<open>Map.prototype.set\<close>: replace the value of a key in place, or append a new entry.\<close>

fun Map_set :: "(string \<times> 'v) list \<Rightarrow> string \<Rightarrow> 'v \<Rightarrow> (string \<times> 'v) list" where
  "Map_set [] k v = [(k, v)]"
| "Map_set ((k', v') # m) k v = (if k' = k then (k, v) # m else (k', v') # Map_set m k v)"

text \<open>The truthiness test of \<^verbatim>\<open>if (cacheData)\<close>.\<close>

fun truthy :: "cache_data \<Rightarrow> bool" where
  "truthy Undefined = False"
| "truthy (Json JNull) = False"
| "truthy (Json (JBool b)) = b"
| "truthy (Json (JNum n)) = (n \<noteq> 0)"
| "truthy (Json (JStr s)) = (s \<noteq> [])"
| "truthy (Json (JArr xs)) = True"
| "truthy (Json (JObj kvs)) = True"
| "truthy (CollectionMap m) = True"

text \<open>\<^verbatim>\<open>typeof body === "object" && body !== null\<close>: arrays are objects too.\<close>

fun is_object :: "json \<Rightarrow> bool" where
  "is_object (JArr xs) = True"
| "is_object (JObj kvs) = True"
| "is_object j = False"

text \<open>
  \<^verbatim>\<open>Date.now() > this.expiresAt\<close>: a comparison with \<^verbatim>\<open>undefined\<close> is false.
\<close>

fun expired :: "int \<Rightarrow> int option \<Rightarrow> bool" where
  "expired t None = False"
| "expired t (Some e) = (t > e)"

subsection \<open>The controller and the transport\<close>

text \<open>
  The fields of \<^verbatim>\<open>RealTimeDB\<close>. Its field \<^verbatim>\<open>cache\<close> is set to the empty record by the
  constructor and never read or written again, and \<^verbatim>\<open>readyResolver\<close> is the resolve
  function of \<^verbatim>\<open>readyPromise\<close>; both are left out. An entry of \<^verbatim>\<open>cachedCollections\<close> holds
  whatever \<^verbatim>\<open>get\<close> stored: a map of collections or a parsed scalar.
\<close>

record RealTimeDB =
  databaseSecret :: string
  databaseName :: string
  ttl :: int
  readyPromise :: promise
  cachedCollections :: "(string \<times> cache_data) list"

record request =
  uri :: string
  req_method :: string
  req_body :: "string option"
  headers :: "(string \<times> string) list"

record response =
  status :: int
  body :: string

text \<open>
  The world outside the program: the clock read by \<^verbatim>\<open>Date.now()\<close>, the requests handed to
  \<^verbatim>\<open>http.request\<close> so far, how the remote store answers a request given the requests
  before it, and the time a round trip takes.
\<close>

record world =
  now :: int
  sent :: "request list"
  server :: "request list \<Rightarrow> request \<Rightarrow> response"
  latency :: nat

text \<open>A request handed to the transport whose response has not arrived yet.\<close>

definition issue :: "world \<Rightarrow> request \<Rightarrow> world" where
  "issue w r = w\<lparr>sent := sent w @ [r]\<rparr>"

text \<open>\<^verbatim>\<open>await http.request(request)\<close>: the request goes out and the caller resumes with the answer.\<close>

definition http_request :: "world \<Rightarrow> request \<Rightarrow> response \<times> world" where
  "http_request w r = (server w (sent w) r, (issue w r)\<lparr>now := now w + int (latency w)\<rparr>)"

text \<open>\<^verbatim>\<open>encodeURIComponent\<close> on a string of bytes.\<close>

definition unreserved :: "char \<Rightarrow> bool" where
  "unreserved c =
     (List.member (''ABCDEFGHIJKLMNOPQRSTUVWXYZabcdefghijklmnopqrstuvwxyz0123456789-_.!~*()''
        @ [CHR 0x27]) c)"

definition hex_digit :: "nat \<Rightarrow> char" where
  "hex_digit n = ''0123456789ABCDEF'' ! (n mod 16)"

definition encodeURIComponent :: "string \<Rightarrow> string" where
  "encodeURIComponent s =
     concat (map (\<lambda>c. if unreserved c then [c]
                       else [CHR ''%'', hex_digit (of_char c div 16), hex_digit (of_char c mod 16)]) s)"

text \<open>\<^verbatim>\<open>Array.prototype.join\<close>.\<close>

fun join :: "string \<Rightarrow> string list \<Rightarrow> string" where
  "join sep [] = []"
| "join sep [x] = x"
| "join sep (x # y # xs) = x @ sep @ join sep (y # xs)"

text \<open>
  The request built by \<^verbatim>\<open>sendRequest\<close>. The options are the entries of the options object
  with their values as strings; \<^verbatim>\<open>if (body)\<close> drops a missing and an empty body.
\<close>

definition build_request ::
  "RealTimeDB \<Rightarrow> string \<Rightarrow> string \<Rightarrow> (string \<times> string) list \<Rightarrow> string option \<Rightarrow> request" where
  "build_request db p m options b =
     (let optionsString =
            join ''&'' (map (\<lambda>(key, value). encodeURIComponent key @ ''='' @ encodeURIComponent value)
                         options);
          queryString = (if optionsString \<noteq> [] then ''&'' @ optionsString else []) in
      \<lparr>uri = ''https://'' @ databaseName db @ ''.firebaseio.com/'' @ p @ ''.json?auth=''
               @ databaseSecret db @ queryString,
       req_method = m,
       req_body = (case b of None \<Rightarrow> None | Some s \<Rightarrow> if s \<noteq> [] then Some s else None),
       headers = [(''Content-Type'', ''application/json'')]\<rparr>)"

definition sendRequest ::
  "RealTimeDB \<Rightarrow> string \<Rightarrow> string \<Rightarrow> (string \<times> string) list \<Rightarrow> string option \<Rightarrow> world
     \<Rightarrow> response \<times> world" where
  "sendRequest db p m options b w = http_request w (build_request db p m options b)"

subsection \<open>Collection\<close>

text \<open>
  \<^verbatim>\<open>updateCache\<close> after its \<^verbatim>\<open>await\<close>: the response has arrived and the clock shows \<open>t\<close>.
  \<^verbatim>\<open>JSON.parse\<close> is a parameter; \<open>None\<close> is its \<^verbatim>\<open>SyntaxError\<close>.
\<close>

definition updateCache_resume ::
  "(string \<Rightarrow> json option) \<Rightarrow> RealTimeDB \<Rightarrow> collection \<Rightarrow> response \<Rightarrow> int
     \<Rightarrow> unit completion \<times> collection" where
  "updateCache_resume JSON_parse db c resp t =
     (if status resp \<noteq> 200 then (Resolved (), c)
      else case JSON_parse (body resp) of
             None \<Rightarrow> (Threw SyntaxError, c)
           | Some b \<Rightarrow>
               (let c1 = (if is_object b then set_cache (Json b) c else set_cache (Json b) c) in
                (Resolved (), set_expiresAt (t + ttl db) c1)))"

definition updateCache ::
  "(string \<Rightarrow> json option) \<Rightarrow> RealTimeDB \<Rightarrow> collection \<Rightarrow> world
     \<Rightarrow> unit completion \<times> collection \<times> world" where
  "updateCache JSON_parse db c w =
     (let (resp, w') = sendRequest db (path c) ''Get'' [] None w;
          (r, c') = updateCache_resume JSON_parse db c resp (now w')
      in (r, c', w'))"

text \<open>
  \<^verbatim>\<open>updateDatabase\<close>: the response is awaited and dropped. \<^verbatim>\<open>JSON.stringify\<close> is a
  parameter; \<open>None\<close> is the \<^verbatim>\<open>undefined\<close> it returns for \<^verbatim>\<open>undefined\<close>.
\<close>

definition updateDatabase ::
  "(cache_data \<Rightarrow> string option) \<Rightarrow> RealTimeDB \<Rightarrow> collection \<Rightarrow> world
     \<Rightarrow> unit completion \<times> world" where
  "updateDatabase JSON_stringify db c w =
     (let (resp, w') = sendRequest db (path c) ''Put'' [] (JSON_stringify (cache c)) w
      in (Resolved (), w'))"

definition Collection_get ::
  "(string \<Rightarrow> json option) \<Rightarrow> RealTimeDB \<Rightarrow> collection \<Rightarrow> bool \<Rightarrow> world
     \<Rightarrow> cache_data completion \<times> collection \<times> world" where
  "Collection_get JSON_parse db c updateCache_flag w =
     (case ready c of
        Pending \<Rightarrow> (Blocked, c, w)
      | Rejected e \<Rightarrow> (Threw e, c, w)
      | Fulfilled \<Rightarrow>
          if expired (now w) (expiresAt c) \<or> updateCache_flag then
            (case updateCache JSON_parse db c w of
               (Resolved u, c', w') \<Rightarrow> (Resolved (cache c'), c', w')
             | (Threw e, c', w') \<Rightarrow> (Threw e, c', w')
             | (Blocked, c', w') \<Rightarrow> (Blocked, c', w'))
          else (Resolved (cache c), c, w))"

definition Collection_set ::
  "(cache_data \<Rightarrow> string option) \<Rightarrow> RealTimeDB \<Rightarrow> collection \<Rightarrow> cache_data \<Rightarrow> world
     \<Rightarrow> unit completion \<times> collection \<times> world" where
  "Collection_set JSON_stringify db c data w =
     (case updateDatabase JSON_stringify db c w of
        (Resolved u, w') \<Rightarrow> (Resolved (), set_cache data c, w')
      | (Threw e, w') \<Rightarrow> (Threw e, c, w')
      | (Blocked, w') \<Rightarrow> (Blocked, c, w'))"

text \<open>
  The constructor. With a truthy \<^verbatim>\<open>cacheData\<close> the node is complete. Otherwise
  \<^verbatim>\<open>updateCache\<close> runs up to its \<^verbatim>\<open>await\<close>: the request is out, no field but \<^verbatim>\<open>path\<close>
  is assigned, and \<^verbatim>\<open>ready\<close> is the pending promise of that call.
\<close>

definition Collection_new ::
  "RealTimeDB \<Rightarrow> string \<Rightarrow> cache_data \<Rightarrow> world \<Rightarrow> collection \<times> world" where
  "Collection_new db p cacheData w =
     (if truthy cacheData
      then (Collection cacheData p (Some (now w + ttl db)) Fulfilled, w)
      else (Collection Undefined p None Pending,
            issue w (build_request db p ''Get'' [] None)))"

text \<open>
  The response to the constructor's request arrives at time \<open>t\<close>: the rest of
  \<^verbatim>\<open>updateCache\<close> runs and settles the promise held in \<^verbatim>\<open>ready\<close>.
\<close>

definition Collection_settle ::
  "(string \<Rightarrow> json option) \<Rightarrow> RealTimeDB \<Rightarrow> collection \<Rightarrow> response \<Rightarrow> int \<Rightarrow> collection" where
  "Collection_settle JSON_parse db c resp t =
     (case updateCache_resume JSON_parse db c resp t of
        (Resolved u, c') \<Rightarrow> set_ready Fulfilled c'
      | (Threw e, c') \<Rightarrow> set_ready (Rejected e) c'
      | (Blocked, c') \<Rightarrow> c')"

subsection \<open>objectToCollections\<close>

text \<open>The name of an array index, as \<^verbatim>\<open>Object.keys\<close> gives it: the index in decimal.\<close>

definition decimal_digit :: "nat \<Rightarrow> char" where
  "decimal_digit d = ''0123456789'' ! (d mod 10)"

fun index_key :: "nat \<Rightarrow> string" where
  "index_key i =
     (if i < 10 then [decimal_digit i] else index_key (i div 10) @ [decimal_digit i])"

text \<open>
  The own enumerable properties of a parsed value: the entries of an object, the
  elements of an array under their indices, none for a scalar.
\<close>

fun Object_entries :: "json \<Rightarrow> (string \<times> json) list" where
  "Object_entries (JObj kvs) = kvs"
| "Object_entries (JArr xs) = zip (map index_key [0..<length xs]) xs"
| "Object_entries j = []"

definition Object_keys :: "json \<Rightarrow> string list" where
  "Object_keys j = map fst (Object_entries j)"

text \<open>\<^verbatim>\<open>object[key]\<close>: \<^verbatim>\<open>undefined\<close> for a key the object does not have.\<close>

definition property :: "json \<Rightarrow> string \<Rightarrow> cache_data" where
  "property j key = (case map_of (Object_entries j) key of None \<Rightarrow> Undefined | Some v \<Rightarrow> Json v)"

text \<open>The body of the \<^verbatim>\<open>for\<close> loop of \<^verbatim>\<open>objectToCollections\<close>, over the keys still to visit.\<close>

fun objectToCollections_loop ::
  "RealTimeDB \<Rightarrow> json \<Rightarrow> string list \<Rightarrow> (string \<times> collection) list \<Rightarrow> world
     \<Rightarrow> (string \<times> collection) list \<times> world" where
  "objectToCollections_loop db object [] collectionsMap w = (collectionsMap, w)"
| "objectToCollections_loop db object (key # keys) collectionsMap w =
     (let p = key;
          cacheData = property object key;
          (c, w') = Collection_new db p cacheData w
      in objectToCollections_loop db object keys (Map_set collectionsMap p c) w')"

definition objectToCollections ::
  "json \<Rightarrow> RealTimeDB \<Rightarrow> world \<Rightarrow> (string \<times> collection) list \<times> world" where
  "objectToCollections object db w = objectToCollections_loop db object (Object_keys object) [] w"

subsection \<open>RealTimeDB\<close>

text \<open>
  \<^verbatim>\<open>String.prototype.trim\<close>, on a string held as its UTF-8 bytes. It strips the white
  space and line terminators of ECMAScript from both ends: U+0009 to U+000D, U+0020,
  U+00A0, U+1680, U+2000 to U+200A, U+2028, U+2029, U+202F, U+205F, U+3000 and U+FEFF.
  \<open>white_space3\<close> recognises the ones of three bytes; \<open>white_space_at\<close> is the number of
  bytes of the white space character a byte list starts with, and \<open>white_space_before\<close>
  the same for the character a reversed byte list ends with (0 when there is none).
\<close>

definition white_space3 :: "nat \<Rightarrow> nat \<Rightarrow> nat \<Rightarrow> bool" where
  "white_space3 b1 b2 b3 =
     ((b1 = 0xE1 \<and> b2 = 0x9A \<and> b3 = 0x80)
      \<or> (b1 = 0xE2 \<and> b2 = 0x80
          \<and> ((0x80 \<le> b3 \<and> b3 \<le> 0x8A) \<or> b3 = 0xA8 \<or> b3 = 0xA9 \<or> b3 = 0xAF))
      \<or> (b1 = 0xE2 \<and> b2 = 0x81 \<and> b3 = 0x9F)
      \<or> (b1 = 0xE3 \<and> b2 = 0x80 \<and> b3 = 0x80)
      \<or> (b1 = 0xEF \<and> b2 = 0xBB \<and> b3 = 0xBF))"

fun white_space_at :: "nat list \<Rightarrow> nat" where
  "white_space_at [] = 0"
| "white_space_at (b1 # bs) =
     (if b1 = 0x20 \<or> (9 \<le> b1 \<and> b1 \<le> 13) then 1
      else (case bs of
              [] \<Rightarrow> 0
            | b2 # bs' \<Rightarrow>
                if b1 = 0xC2 \<and> b2 = 0xA0 then 2
                else (case bs' of
                        [] \<Rightarrow> 0
                      | b3 # bs'' \<Rightarrow> if white_space3 b1 b2 b3 then 3 else 0)))"

fun white_space_before :: "nat list \<Rightarrow> nat" where
  "white_space_before [] = 0"
| "white_space_before (b1 # bs) =
     (if b1 = 0x20 \<or> (9 \<le> b1 \<and> b1 \<le> 13) then 1
      else (case bs of
              [] \<Rightarrow> 0
            | b2 # bs' \<Rightarrow>
                if b2 = 0xC2 \<and> b1 = 0xA0 then 2
                else (case bs' of
                        [] \<Rightarrow> 0
                      | b3 # bs'' \<Rightarrow> if white_space3 b3 b2 b1 then 3 else 0)))"

function trimStart :: "string \<Rightarrow> string" where
  "trimStart s =
     (if white_space_at (map of_char s) = 0 then s
      else trimStart (drop (white_space_at (map of_char s)) s))"
  by pat_completeness auto
termination
proof (relation "measure length")
  show "wf (measure length)"
    by simp
next
  fix s :: string
  assume "white_space_at (map of_char s) \<noteq> 0"
  moreover have "white_space_at bs \<le> length bs" for bs
    by (cases bs) (auto split: list.splits)
  from this [of "map of_char s"] have "white_space_at (map of_char s) \<le> length s"
    by simp
  ultimately show "(drop (white_space_at (map of_char s)) s, s) \<in> measure length"
    by simp
qed

function trimEnd :: "string \<Rightarrow> string" where
  "trimEnd s =
     (if white_space_before (rev (map of_char s)) = 0 then s
      else trimEnd (take (length s - white_space_before (rev (map of_char s))) s))"
  by pat_completeness auto
termination
proof (relation "measure length")
  show "wf (measure length)"
    by simp
next
  fix s :: string
  assume "white_space_before (rev (map of_char s)) \<noteq> 0"
  moreover have "white_space_before bs \<le> length bs" for bs
    by (cases bs) (auto split: list.splits)
  from this [of "rev (map of_char s)"] have "white_space_before (rev (map of_char s)) \<le> length s"
    by simp
  ultimately show "(take (length s - white_space_before (rev (map of_char s))) s, s)
                     \<in> measure length"
    by simp
qed

declare trimStart.simps [simp del] trimEnd.simps [simp del]

definition trim :: "string \<Rightarrow> string" where
  "trim s = trimEnd (trimStart s)"

text \<open>
  The constructor: \<^verbatim>\<open>ttl\<close> defaults to 300000 when left out, the promise starts pending,
  and \<^verbatim>\<open>initialize\<close> runs up to its \<^verbatim>\<open>await\<close>, so the validation request is out. The
  promise \<^verbatim>\<open>initialize\<close> returns is dropped.
\<close>

definition RealTimeDB_new :: "string \<Rightarrow> string \<Rightarrow> int option \<Rightarrow> world \<Rightarrow> RealTimeDB \<times> world" where
  "RealTimeDB_new name secret ttl_arg w =
     (let db = \<lparr>databaseSecret = trim secret,
                databaseName = trim name,
                ttl = (case ttl_arg of None \<Rightarrow> 300000 | Some t \<Rightarrow> t),
                readyPromise = Pending,
                cachedCollections = []\<rparr>
      in (db, issue w (build_request db [] ''Get'' [(''shallow'', ''true'')] None)))"

text \<open>
  \<^verbatim>\<open>initialize\<close> after its \<^verbatim>\<open>await\<close>: the body is parsed before the status is looked at,
  and only the last line, \<^verbatim>\<open>this.readyResolver()\<close>, touches \<^verbatim>\<open>readyPromise\<close>.
\<close>

definition initialize_resume ::
  "(string \<Rightarrow> json option) \<Rightarrow> RealTimeDB \<Rightarrow> response \<Rightarrow> unit completion \<times> RealTimeDB" where
  "initialize_resume JSON_parse db resp =
     (case JSON_parse (body resp) of
        None \<Rightarrow> (Threw SyntaxError, db)
      | Some b \<Rightarrow>
          if status resp \<noteq> 200 then
            (if status resp = 404 then (Threw (FailedToFind (databaseName db)), db)
             else if status resp = 401 then (Threw (PermissionDenied (databaseName db)), db)
             else (Threw (ErrorValidating b), db))
          else (Resolved (), db\<lparr>readyPromise := Fulfilled\<rparr>))"

text \<open>\<^verbatim>\<open>onReady\<close> without its callback: the one method that awaits \<^verbatim>\<open>readyPromise\<close>.\<close>

definition onReady :: "RealTimeDB \<Rightarrow> unit completion" where
  "onReady db =
     (case readyPromise db of
        Pending \<Rightarrow> Blocked
      | Rejected e \<Rightarrow> Threw e
      | Fulfilled \<Rightarrow> Resolved ())"

text \<open>
  \<^verbatim>\<open>get\<close>. A bare \<^verbatim>\<open>return\<close> resolves with \<^verbatim>\<open>undefined\<close>; what is stored under the path is
  what is returned.
\<close>

definition RealTimeDB_get ::
  "(string \<Rightarrow> json option) \<Rightarrow> RealTimeDB \<Rightarrow> string \<Rightarrow> world
     \<Rightarrow> cache_data completion \<times> RealTimeDB \<times> world" where
  "RealTimeDB_get JSON_parse db p w =
     (case map_of (cachedCollections db) p of
        Some v \<Rightarrow> (Resolved v, db, w)
      | None \<Rightarrow>
          (let (resp, w1) = sendRequest db p ''Get'' [] None w in
           if status resp \<noteq> 200 then (Resolved Undefined, db, w1)
           else case JSON_parse (body resp) of
                  None \<Rightarrow> (Threw SyntaxError, db, w1)
                | Some b \<Rightarrow>
                    (let (collection, w2) =
                           (if is_object b
                            then (let (m, w') = objectToCollections b db w1 in (CollectionMap m, w'))
                            else (Json b, w1))
                     in (Resolved collection,
                         db\<lparr>cachedCollections := Map_set (cachedCollections db) p collection\<rparr>,
                         w2))))"

subsection \<open>Example inputs\<close>

text \<open>
  \<^verbatim>\<open>JSON.parse\<close> and \<^verbatim>\<open>JSON.stringify\<close> on the few texts and values the examples below
  use; the theorems hold for every parser and serializer.
\<close>

definition example_parse :: "string \<Rightarrow> json option" where
  \<open>example_parse s =
     (if s = ''1'' then Some (JNum 1)
      else if s = ''2'' then Some (JNum 2)
      else if s = ''null'' then Some JNull
      else if s = ''"Steve"'' then Some (JStr ''Steve'')
      else if s = ''{"steve":{"name":"Steve"}}''
        then Some (JObj [(''steve'', JObj [(''name'', JStr ''Steve'')])])
      else None)\<close>

definition example_stringify :: "cache_data \<Rightarrow> string option" where
  "example_stringify d =
     (if d = Json (JNum 1) then Some ''1''
      else if d = Json (JNum 2) then Some ''2''
      else None)"

text \<open>A world at time \<open>t\<close> whose remote store answers every request with one status and body.\<close>

definition remote :: "int \<Rightarrow> string \<Rightarrow> int \<Rightarrow> world" where
  "remote st b t = \<lparr>now = t, sent = [], server = (\<lambda>h r. \<lparr>status = st, body = b\<rparr>), latency = 5\<rparr>"

text \<open>
  The controller of the spec's scenarios right after \<^verbatim>\<open>new RealTimeDB(...)\<close>, and the same
  controller once its validation request was answered with status 200.
\<close>

definition fresh_db :: RealTimeDB where
  "fresh_db = fst (RealTimeDB_new ''proj-default-rtdb'' ''abc'' None (remote 200 ''null'' 1000))"

definition example_db :: RealTimeDB where
  "example_db = snd (initialize_resume example_parse fresh_db \<lparr>status = 200, body = ''null''\<rparr>)"

text \<open>
  A node holding 1 that expires at 301000, and a node whose first fetch is still out with
  the world its constructor leaves.
\<close>

definition example_node :: collection where
  "example_node = fst (Collection_new example_db ''users/steve/age'' (Json (JNum 1))
                         (remote 200 ''1'' 1000))"

definition pending_node :: collection where
  "pending_node = fst (Collection_new example_db ''users/steve/age'' Undefined (remote 200 ''1'' 1000))"

definition pending_world :: world where
  "pending_world = snd (Collection_new example_db ''users/steve/age'' Undefined (remote 200 ''1'' 1000))"

section \<open>Properties\<close>

subsection \<open>Helper facts\<close>

lemma sendRequest_eq:
  "sendRequest db p m options b w =
     (server w (sent w) (build_request db p m options b),
      w\<lparr>sent := sent w @ [build_request db p m options b], now := now w + int (latency w)\<rparr>)"
  by (simp add: sendRequest_def http_request_def issue_def)

lemma updateCache_eq:
  "updateCache JSON_parse db c w =
     (let rq = build_request db (path c) ''Get'' [] None;
          resp = server w (sent w) rq;
          w' = w\<lparr>sent := sent w @ [rq], now := now w + int (latency w)\<rparr>
      in if status resp \<noteq> 200 then (Resolved (), c, w')
         else case JSON_parse (body resp) of
                None \<Rightarrow> (Threw SyntaxError, c, w')
              | Some b \<Rightarrow> (Resolved (),
                           Collection (Json b) (path c) (Some (now w + int (latency w) + ttl db)) (ready c),
                           w'))"
  by (simp add: updateCache_def sendRequest_eq updateCache_resume_def Let_def set_cache_def
      set_expiresAt_def split: option.splits)

lemma map_of_Map_set: "map_of (Map_set m k v) k = Some v"
  by (induction m) auto

lemma trim_examples:
  "trim ''abc'' = ''abc''"
  "trim ''proj-default-rtdb'' = ''proj-default-rtdb''"
  "trim ('' proj-default-rtdb'' @ [CHR 0x09, CHR 0xC2, CHR 0xA0, CHR 0xE2, CHR 0x80, CHR 0xA8])
     = ''proj-default-rtdb''"
  by code_simp+

lemma example_db_eq:
  "fresh_db = \<lparr>databaseSecret = ''abc'', databaseName = ''proj-default-rtdb'', ttl = 300000,
                readyPromise = Pending, cachedCollections = []\<rparr>"
  "example_db = \<lparr>databaseSecret = ''abc'', databaseName = ''proj-default-rtdb'', ttl = 300000,
                  readyPromise = Fulfilled, cachedCollections = []\<rparr>"
  by (simp_all add: example_db_def fresh_db_def RealTimeDB_new_def initialize_resume_def
      example_parse_def trim_examples Let_def)

lemma example_node_eq:
  "example_node = Collection (Json (JNum 1)) ''users/steve/age'' (Some 301000) Fulfilled"
  "pending_node = Collection Undefined ''users/steve/age'' None Pending"
  by (simp_all add: example_node_def pending_node_def Collection_new_def remote_def example_db_eq)

lemma pending_world_eq:
  "pending_world =
     (remote 200 ''1'' 1000)\<lparr>sent := [build_request example_db ''users/steve/age'' ''Get'' [] None]\<rparr>"
  by (simp add: pending_world_def Collection_new_def issue_def remote_def)


subsection \<open>What the constructor and objectToCollections do establish\<close>

lemma Collection_new_truthy:
  "truthy v \<Longrightarrow> Collection_new db p v w = (Collection v p (Some (now w + ttl db)) Fulfilled, w)"
  by (simp add: Collection_new_def)

lemma Collection_get_blocked_while_pending:
  "ready c = Pending \<Longrightarrow> Collection_get JSON_parse db c flag w = (Blocked, c, w)"
  by (simp add: Collection_get_def)

lemma Map_set_fresh: "k \<notin> fst ` set m \<Longrightarrow> Map_set m k v = m @ [(k, v)]"
  by (induction m) auto

lemma Collection_new_path: "path (fst (Collection_new db p v w)) = p"
  by (simp add: Collection_new_def)

lemma objectToCollections_loop_entries:
  "distinct keys \<Longrightarrow> set keys \<inter> fst ` set m = {} \<Longrightarrow>
     map fst (fst (objectToCollections_loop db object keys m w)) = map fst m @ keys
     \<and> (\<forall>(k, c) \<in> set (fst (objectToCollections_loop db object keys m w)).
           (k, c) \<in> set m \<or> path c = k)"
proof (induction keys arbitrary: m w)
  case Nil
  then show ?case by auto
next
  case (Cons key keys)
  obtain c w' where n: "Collection_new db key (property object key) w = (c, w')"
    by (cases "Collection_new db key (property object key) w")
  then have pc: "path c = key"
    using Collection_new_path [of db key "property object key" w] by simp
  from Cons.prems have fresh: "key \<notin> fst ` set m"
    by auto
  have m': "Map_set m key c = m @ [(key, c)]"
    by (rule Map_set_fresh [OF fresh])
  from Cons.prems have d: "distinct keys" and i: "set keys \<inter> fst ` set (m @ [(key, c)]) = {}"
    by auto
  from Cons.IH [OF d i, of w'] pc show ?case
    by (auto simp add: n m')
qed

text \<open>
  For an object with distinct keys the map has one node per key, in key order, and the
  path of each node is its key.
\<close>

lemma objectToCollections_one_node_per_key:
  assumes "distinct (Object_keys object)"
    and "objectToCollections object db w = (m, w')"
  shows "map fst m = Object_keys object" and "\<forall>(k, c) \<in> set m. path c = k"
  using objectToCollections_loop_entries [OF assms(1), of "[]" db object w] assms(2)
  by (auto simp add: objectToCollections_def)

subsection \<open>Collection.updateCache\<close>

text \<open>
  C8. A refresh sends one GET for the node's path. On a status other than 200 it resolves
  without an error and leaves the node as it was. On status 200 the cached value becomes
  the parsed body and \<^verbatim>\<open>expiresAt\<close> becomes the time of the response plus the
  controller's ttl; a body that does not parse makes the refresh throw with the node
  untouched. So \<^verbatim>\<open>expiresAt\<close> changes only where the value was replaced by the parsed body
  of a 200 response.
\<close>

theorem updateCache_non200_silent:
  assumes "updateCache JSON_parse db c w = (r, c', w')"
    and "resp = server w (sent w) (build_request db (path c) ''Get'' [] None)"
  shows "sent w' = sent w @ [build_request db (path c) ''Get'' [] None]
     \<and> now w' = now w + int (latency w)
     \<and> (status resp \<noteq> 200 \<longrightarrow> r = Resolved () \<and> c' = c)
     \<and> (status resp = 200 \<longrightarrow>
          (case JSON_parse (body resp) of
             None \<Rightarrow> r = Threw SyntaxError \<and> c' = c
           | Some b \<Rightarrow> r = Resolved () \<and>
               c' = Collection (Json b) (path c) (Some (now w' + ttl db)) (ready c)))
     \<and> (expiresAt c' \<noteq> expiresAt c \<or> cache c' \<noteq> cache c \<longrightarrow>
          status resp = 200 \<and> JSON_parse (body resp) \<noteq> None
          \<and> cache c' = Json (the (JSON_parse (body resp))))"
  using assms by (auto simp add: updateCache_eq Let_def split: option.splits if_splits)

theorem updateCache_non200_silent_witness:
  "fst (updateCache example_parse example_db example_node (remote 404 ''null'' 2000)) = Resolved ()
   \<and> fst (snd (updateCache example_parse example_db example_node (remote 404 ''null'' 2000)))
       = example_node
   \<and> fst (snd (updateCache example_parse example_db example_node (remote 200 ''2'' 2000)))
       = Collection (Json (JNum 2)) ''users/steve/age'' (Some 302005) Fulfilled"
proof -
  let ?w = "remote 404 ''null'' 2000" and ?v = "remote 200 ''2'' 2000"
  obtain r c' w' where a: "updateCache example_parse example_db example_node ?w = (r, c', w')"
    by (cases "updateCache example_parse example_db example_node ?w")
  obtain r2 c2 w2 where b: "updateCache example_parse example_db example_node ?v = (r2, c2, w2)"
    by (cases "updateCache example_parse example_db example_node ?v")
  have s: "status (server ?w (sent ?w) (build_request example_db (path example_node) ''Get'' [] None)) \<noteq> 200"
    by (simp add: remote_def)
  have s2: "status (server ?v (sent ?v) (build_request example_db (path example_node) ''Get'' [] None)) = 200"
    and p2: "example_parse (body (server ?v (sent ?v) (build_request example_db (path example_node) ''Get'' [] None))) = Some (JNum 2)"
    by (simp_all add: remote_def example_parse_def)
  from updateCache_non200_silent [OF a refl] s have 1: "r = Resolved ()" "c' = example_node"
    by blast+
  note t = updateCache_non200_silent [OF b refl]
  from t have n: "now w2 = now ?v + int (latency ?v)"
    by blast
  from t s2 have "case example_parse (body (server ?v (sent ?v) (build_request example_db (path example_node) ''Get'' [] None))) of
             None \<Rightarrow> r2 = Threw SyntaxError \<and> c2 = example_node
           | Some b \<Rightarrow> r2 = Resolved () \<and>
               c2 = Collection (Json b) (path example_node) (Some (now w2 + ttl example_db)) (ready example_node)"
    by blast
  then have 2: "c2 = Collection (Json (JNum 2)) (path example_node) (Some (now w2 + ttl example_db)) (ready example_node)"
    unfolding p2 by simp
  show ?thesis
    unfolding a b using 1 2 n by (simp add: example_db_eq example_node_eq remote_def)
qed

subsection \<open>Collection.get\<close>

text \<open>
  C6. On a node whose \<^verbatim>\<open>ready\<close> promise is fulfilled: when the clock is past
  \<^verbatim>\<open>expiresAt\<close> or the flag is passed, \<^verbatim>\<open>get\<close> is one run of \<^verbatim>\<open>updateCache\<close>, which sends
  exactly one GET for the node's path, followed by the return of the value the node then
  holds (the throw of the refresh, when the body of a 200 response does not parse).
  When the clock is not past \<^verbatim>\<open>expiresAt\<close> and the flag is not passed, nothing is sent,
  the node is untouched and the cached value is returned.
\<close>

theorem Collection_get_refreshes_iff_stale:
  assumes "ready c = Fulfilled"
  shows "((updateCache_flag \<or> (\<exists>t. expiresAt c = Some t \<and> now w > t)) \<longrightarrow>
            (\<exists>r c' w'. updateCache JSON_parse db c w = (r, c', w')
               \<and> sent w' = sent w @ [build_request db (path c) ''Get'' [] None]
               \<and> Collection_get JSON_parse db c updateCache_flag w =
                   (case r of Resolved u \<Rightarrow> Resolved (cache c') | Threw e \<Rightarrow> Threw e
                      | Blocked \<Rightarrow> Blocked, c', w')
               \<and> r \<noteq> Blocked))
       \<and> ((\<not> updateCache_flag \<and> (\<exists>t. expiresAt c = Some t \<and> now w \<le> t)) \<longrightarrow>
            Collection_get JSON_parse db c updateCache_flag w = (Resolved (cache c), c, w))"
  using assms
  by (auto simp add: Collection_get_def updateCache_eq Let_def split: option.splits)

theorem Collection_get_refreshes_iff_stale_witness:
  "ready example_node = Fulfilled
   \<and> expiresAt example_node = Some 301000
   \<and> Collection_get example_parse example_db example_node False (remote 200 ''2'' 301000)
       = (Resolved (Json (JNum 1)), example_node, remote 200 ''2'' 301000)
   \<and> fst (Collection_get example_parse example_db example_node False (remote 200 ''2'' 301001))
       = Resolved (Json (JNum 2))
   \<and> length (sent (snd (snd (Collection_get example_parse example_db example_node False
        (remote 200 ''2'' 301001))))) = 1"
proof -
  let ?w = "remote 200 ''2'' 301000" and ?v = "remote 200 ''2'' 301001"
  have r: "ready example_node = Fulfilled" and e: "expiresAt example_node = Some 301000"
    by (simp_all add: example_node_eq)
  have fresh: "\<not> False \<and> (\<exists>t. expiresAt example_node = Some t \<and> now ?w \<le> t)"
    by (simp add: example_node_eq remote_def)
  have stale: "False \<or> (\<exists>t. expiresAt example_node = Some t \<and> now ?v > t)"
    by (simp add: example_node_eq remote_def)
  from Collection_get_refreshes_iff_stale [OF r, of False ?w example_parse example_db] fresh
  have 1: "Collection_get example_parse example_db example_node False ?w
             = (Resolved (cache example_node), example_node, ?w)"
    by blast
  from Collection_get_refreshes_iff_stale [OF r, of False ?v example_parse example_db] stale
  obtain r' c' w' where u: "updateCache example_parse example_db example_node ?v = (r', c', w')"
    and s: "sent w' = sent ?v @ [build_request example_db (path example_node) ''Get'' [] None]"
    and g: "Collection_get example_parse example_db example_node False ?v =
              (case r' of Resolved u \<Rightarrow> Resolved (cache c') | Threw e \<Rightarrow> Threw e
                 | Blocked \<Rightarrow> Blocked, c', w')"
    by blast
  have ev: "updateCache example_parse example_db example_node ?v
          = (Resolved (), Collection (Json (JNum 2)) ''users/steve/age'' (Some 601006) Fulfilled,
             (remote 200 ''2'' 301006)\<lparr>sent := [build_request example_db ''users/steve/age'' ''Get'' [] None]\<rparr>)"
    by (simp add: updateCache_eq Let_def remote_def example_parse_def example_node_eq example_db_eq)
  have "r' = Resolved ()" "cache c' = Json (JNum 2)"
    using trans [OF u [symmetric] ev] by simp_all
  with g s have 2: "fst (Collection_get example_parse example_db example_node False ?v)
                      = Resolved (Json (JNum 2))"
    "length (sent (snd (snd (Collection_get example_parse example_db example_node False ?v)))) = 1"
    by (simp_all add: remote_def)
  from r e 1 2 show ?thesis
    by (simp add: example_node_eq)
qed

text \<open>
  C9. A node that is expired and whose refresh is answered with a status other than 200
  keeps its value and its \<^verbatim>\<open>expiresAt\<close>: \<^verbatim>\<open>get\<close> returns the old value, and at any later
  time the node is still expired, so the next \<^verbatim>\<open>get\<close> without the flag sends a GET again.
\<close>

theorem failed_refresh_keeps_node_expired:
  assumes "ready c = Fulfilled"
    and "expiresAt c = Some t"
    and "now w > t"
    and "status (server w (sent w) (build_request db (path c) ''Get'' [] None)) \<noteq> 200"
    and "Collection_get JSON_parse db c False w = (r, c', w')"
  shows "r = Resolved (cache c) \<and> c' = c \<and> expiresAt c' = Some t \<and> now w \<le> now w'
     \<and> (\<forall>w2. now w' \<le> now w2 \<longrightarrow>
           expired (now w2) (expiresAt c')
           \<and> sent (snd (snd (Collection_get JSON_parse db c' False w2)))
               = sent w2 @ [build_request db (path c') ''Get'' [] None])"
  using assms
  by (auto simp add: Collection_get_def updateCache_eq Let_def split: option.splits)

theorem failed_refresh_keeps_node_expired_witness:
  "fst (Collection_get example_parse example_db example_node False (remote 500 ''null'' 400000))
     = Resolved (Json (JNum 1))
   \<and> fst (snd (Collection_get example_parse example_db example_node False (remote 500 ''null'' 400000)))
     = example_node
   \<and> sent (snd (snd (Collection_get example_parse example_db example_node False
        (remote 500 ''null'' 500000))))
       = [build_request example_db ''users/steve/age'' ''Get'' [] None]"
proof -
  let ?w = "remote 500 ''null'' 400000" and ?v = "remote 500 ''null'' 500000"
  obtain r c' w' where a: "Collection_get example_parse example_db example_node False ?w = (r, c', w')"
    by (cases "Collection_get example_parse example_db example_node False ?w")
  have h1: "ready example_node = Fulfilled" and h2: "expiresAt example_node = Some 301000"
    and h3: "now ?w > 301000"
    and h4: "status (server ?w (sent ?w) (build_request example_db (path example_node) ''Get'' [] None)) \<noteq> 200"
    by (simp_all add: example_node_eq remote_def)
  note t = failed_refresh_keeps_node_expired [OF h1 h2 h3 h4 a]
  from t have 1: "r = Resolved (cache example_node)" "c' = example_node"
    by blast+
  have "w' = (remote 500 ''null'' 400005)\<lparr>sent := [build_request example_db ''users/steve/age'' ''Get'' [] None]\<rparr>"
    using a by (simp add: Collection_get_def updateCache_eq Let_def remote_def example_node_eq)
  then have "now w' \<le> now ?v"
    by (simp add: remote_def)
  with t have "sent (snd (snd (Collection_get example_parse example_db c' False ?v)))
               = sent ?v @ [build_request example_db (path c') ''Get'' [] None]"
    by blast
  with 1 have 2: "sent (snd (snd (Collection_get example_parse example_db example_node False ?v)))
               = [build_request example_db ''users/steve/age'' ''Get'' [] None]"
    by (simp add: remote_def example_node_eq)
  from 1 2 show ?thesis
    unfolding a by (simp add: example_node_eq)
qed

text \<open>
  C10. A node constructed without a value whose first fetch is answered with a status
  other than 200 ends with no value, no \<^verbatim>\<open>expiresAt\<close> and a fulfilled \<^verbatim>\<open>ready\<close> promise. In
  every world the staleness test is then false, and a \<^verbatim>\<open>get\<close> without the flag returns
  \<^verbatim>\<open>undefined\<close>, sends nothing and leaves the node as it is, so the same holds for the
  \<^verbatim>\<open>get\<close> after it.
\<close>

theorem failed_first_fetch_never_refetched:
  assumes "c0 = fst (Collection_new db p Undefined w0)"
    and "status resp \<noteq> 200"
    and "c1 = Collection_settle JSON_parse db c0 resp t"
  shows "cache c1 = Undefined \<and> expiresAt c1 = None \<and> ready c1 = Fulfilled
     \<and> (\<forall>w. \<not> expired (now w) (expiresAt c1)
            \<and> Collection_get JSON_parse db c1 False w = (Resolved Undefined, c1, w))"
  using assms
  by (simp add: Collection_new_def Collection_settle_def updateCache_resume_def set_ready_def
      Collection_get_def)

theorem failed_first_fetch_never_refetched_witness:
  "status \<lparr>status = 404, body = ''null''\<rparr> \<noteq> 200
   \<and> Collection_get example_parse example_db
        (Collection_settle example_parse example_db pending_node \<lparr>status = 404, body = ''null''\<rparr> 1005)
        False (remote 200 ''1'' 999999999)
     = (Resolved Undefined, Collection Undefined ''users/steve/age'' None Fulfilled,
        remote 200 ''1'' 999999999)"
proof -
  let ?c1 = "Collection_settle example_parse example_db pending_node \<lparr>status = 404, body = ''null''\<rparr> 1005"
  have h: "status \<lparr>status = 404, body = ''null''\<rparr> \<noteq> 200"
    by simp
  note t = failed_first_fetch_never_refetched [OF pending_node_def h refl, of example_parse 1005]
  from t have g: "Collection_get example_parse example_db ?c1 False (remote 200 ''1'' 999999999)
                    = (Resolved Undefined, ?c1, remote 200 ''1'' 999999999)"
    by blast
  from t have "cache ?c1 = Undefined" "expiresAt ?c1 = None" "ready ?c1 = Fulfilled"
    by blast+
  moreover have "path ?c1 = ''users/steve/age''"
    by (simp add: Collection_settle_def updateCache_resume_def set_ready_def example_node_eq)
  ultimately have "?c1 = Collection Undefined ''users/steve/age'' None Fulfilled"
    by (cases ?c1) simp
  with g h show ?thesis
    by simp
qed

subsection \<open>Collection.set\<close>

text \<open>
  C1 (as amended). \<^verbatim>\<open>set\<close> sends exactly one PUT for the node's path and awaits its
  answer. It never looks at the response: whatever status the remote store answers
  with, \<^verbatim>\<open>set\<close> resolves without an error and the node holds the new value afterward,
  with its path, \<^verbatim>\<open>expiresAt\<close> and \<^verbatim>\<open>ready\<close> as before: with any other way of answering
  in place of the remote store's, the result, the node and the requests sent are the
  same. The statement says nothing about the body of the PUT or about the order of the
  PUT and the assignment.
\<close>

theorem Collection_set_ignores_status:
  assumes "Collection_set JSON_stringify db c v w = (r, c', w')"
  shows "r = Resolved ()
     \<and> c' = Collection v (path c) (expiresAt c) (ready c)
     \<and> (\<exists>b. sent w' = sent w @ [build_request db (path c) ''Put'' [] b])
     \<and> now w' = now w + int (latency w)
     \<and> (\<forall>answer. Collection_set JSON_stringify db c v (w\<lparr>server := answer\<rparr>)
                     = (r, c', w'\<lparr>server := answer\<rparr>))"
  using assms
  by (auto simp add: Collection_set_def updateDatabase_def sendRequest_eq set_cache_def)

theorem Collection_set_ignores_status_witness:
  "fst (Collection_set example_stringify example_db example_node (Json (JNum 2))
          (remote 500 ''null'' 400000)) = Resolved ()
   \<and> fst (snd (Collection_set example_stringify example_db example_node (Json (JNum 2))
          (remote 500 ''null'' 400000)))
       = Collection (Json (JNum 2)) ''users/steve/age'' (Some 301000) Fulfilled"
proof -
  let ?w = "remote 500 ''null'' 400000"
  obtain r c' w' where
    a: "Collection_set example_stringify example_db example_node (Json (JNum 2)) ?w = (r, c', w')"
    by (cases "Collection_set example_stringify example_db example_node (Json (JNum 2)) ?w")
  from Collection_set_ignores_status [OF a]
  have "r = Resolved ()"
    "c' = Collection (Json (JNum 2)) (path example_node) (expiresAt example_node) (ready example_node)"
    by blast+
  then show ?thesis
    unfolding a by (simp add: example_node_eq)
qed

text \<open>
  The claim as stated fails on a write answered with status 500: \<^verbatim>\<open>set(2)\<close> on a node
  holding 1 resolves and the node holds 2. It also fails on a write answered with
  status 200: the body of the PUT is the old value 1, so the remote store never
  receives 2.
\<close>

theorem Collection_set_failed_write_counterexample:
  "status (server (remote 500 ''null'' 2000) []
             (build_request example_db ''users/steve/age'' ''Put'' [] (Some ''1''))) \<noteq> 200
   \<and> cache example_node = Json (JNum 1)
   \<and> Collection_set example_stringify example_db example_node (Json (JNum 2)) (remote 500 ''null'' 2000)
       = (Resolved (),
          Collection (Json (JNum 2)) ''users/steve/age'' (Some 301000) Fulfilled,
          (remote 500 ''null'' 2005)
            \<lparr>sent := [build_request example_db ''users/steve/age'' ''Put'' [] (Some ''1'')]\<rparr>)
   \<and> example_stringify (Json (JNum 2)) = Some ''2''
   \<and> map req_body (sent (snd (snd (Collection_set example_stringify example_db example_node
         (Json (JNum 2)) (remote 200 ''null'' 2000)))))
       = [Some ''1'']"
  by (simp add: Collection_set_def updateDatabase_def sendRequest_eq set_cache_def remote_def
      example_node_eq example_stringify_def build_request_def)

subsection \<open>RealTimeDB.initialize\<close>

text \<open>
  C5 (as amended). When the validation request of a new controller is answered with a
  status other than 200, \<^verbatim>\<open>initialize\<close> throws: the not-found error for 404, the
  permission error for 401, otherwise the validation error with the parsed body, and
  the syntax error of \<^verbatim>\<open>JSON.parse\<close> when the body does not parse. The controller is left
  as it was: its readiness promise is neither fulfilled nor rejected but stays pending,
  and \<^verbatim>\<open>onReady\<close> stays blocked.
\<close>

theorem initialize_failure_leaves_barrier_pending:
  assumes "db = fst (RealTimeDB_new name secret ttl_arg w0)"
    and "status resp \<noteq> 200"
    and "initialize_resume JSON_parse db resp = (r, db')"
  shows "db' = db \<and> readyPromise db' = Pending \<and> onReady db' = Blocked
     \<and> (case JSON_parse (body resp) of
           None \<Rightarrow> r = Threw SyntaxError
         | Some b \<Rightarrow>
             r = Threw (if status resp = 404 then FailedToFind (databaseName db)
                        else if status resp = 401 then PermissionDenied (databaseName db)
                        else ErrorValidating b))"
proof -
  have p: "readyPromise db = Pending"
    using assms(1) by (simp add: RealTimeDB_new_def Let_def)
  have e: "db' = db"
    using assms(2,3) by (auto simp add: initialize_resume_def split: option.splits if_splits)
  have r: "case JSON_parse (body resp) of
           None \<Rightarrow> r = Threw SyntaxError
         | Some b \<Rightarrow>
             r = Threw (if status resp = 404 then FailedToFind (databaseName db)
                        else if status resp = 401 then PermissionDenied (databaseName db)
                        else ErrorValidating b)"
    using assms(2,3) by (auto simp add: initialize_resume_def split: option.splits)
  from p e r show ?thesis
    by (simp add: onReady_def)
qed

theorem initialize_failure_leaves_barrier_pending_witness:
  "status \<lparr>status = 401, body = ''null''\<rparr> \<noteq> 200
   \<and> initialize_resume example_parse fresh_db \<lparr>status = 401, body = ''null''\<rparr>
       = (Threw (PermissionDenied ''proj-default-rtdb''), fresh_db)
   \<and> readyPromise fresh_db = Pending"
proof -
  let ?resp = "\<lparr>status = 401, body = ''null''\<rparr>"
  obtain r db' where a: "initialize_resume example_parse fresh_db ?resp = (r, db')"
    by (cases "initialize_resume example_parse fresh_db ?resp")
  have h: "status ?resp \<noteq> 200"
    by simp
  note t = initialize_failure_leaves_barrier_pending [OF fresh_db_def h a]
  from t have 1: "db' = fresh_db" "readyPromise db' = Pending"
    by blast+
  from t have "case example_parse (body ?resp) of
           None \<Rightarrow> r = Threw SyntaxError
         | Some b \<Rightarrow>
             r = Threw (if status ?resp = 404 then FailedToFind (databaseName fresh_db)
                        else if status ?resp = 401 then PermissionDenied (databaseName fresh_db)
                        else ErrorValidating b)"
    by blast
  then have "r = Threw (PermissionDenied ''proj-default-rtdb'')"
    by (simp add: example_parse_def example_db_eq)
  with 1 h show ?thesis
    unfolding a by simp
qed

text \<open>
  The claim as stated fails on a validation answered with status 404: the readiness
  promise is still pending, not rejected with the not-found error, and a later \<^verbatim>\<open>get\<close>
  that the remote store answers with status 200 resolves with the value.
\<close>

theorem initialize_404_counterexample:
  \<open>initialize_resume example_parse fresh_db \<lparr>status = 404, body = ''null''\<rparr>
     = (Threw (FailedToFind ''proj-default-rtdb''), fresh_db)
   \<and> readyPromise fresh_db = Pending
   \<and> readyPromise fresh_db \<noteq> Rejected (FailedToFind ''proj-default-rtdb'')
   \<and> fst (RealTimeDB_get example_parse fresh_db ''users/steve/name'' (remote 200 ''"Steve"'' 2000))
       = Resolved (Json (JStr ''Steve''))\<close>
  by (simp add: initialize_resume_def RealTimeDB_get_def sendRequest_eq example_parse_def
      example_db_eq remote_def)

subsection \<open>RealTimeDB.get\<close>

text \<open>
  C4 (as amended). When \<^verbatim>\<open>get\<close> finds no entry for the path and the remote store answers
  with status 200 and a body that parses, the result is stored under the path in
  \<^verbatim>\<open>cachedCollections\<close> whether it is an object or a scalar. For a scalar body the scalar
  itself is returned after one GET, and every later \<^verbatim>\<open>get\<close> of that path returns the
  stored scalar without sending anything.
\<close>

theorem RealTimeDB_get_memoizes_scalar:
  assumes "map_of (cachedCollections db) p = None"
    and "resp = server w (sent w) (build_request db p ''Get'' [] None)"
    and "status resp = 200"
    and "JSON_parse (body resp) = Some b"
    and "RealTimeDB_get JSON_parse db p w = (r, db', w')"
  shows "(\<exists>v. r = Resolved v \<and> map_of (cachedCollections db') p = Some v
            \<and> (\<forall>w2. RealTimeDB_get JSON_parse db' p w2 = (Resolved v, db', w2)))
     \<and> (\<not> is_object b \<longrightarrow>
           r = Resolved (Json b)
           \<and> map_of (cachedCollections db') p = Some (Json b)
           \<and> sent w' = sent w @ [build_request db p ''Get'' [] None])"
  using assms
  by (auto simp add: RealTimeDB_get_def sendRequest_eq map_of_Map_set Let_def
      split: prod.splits)

theorem RealTimeDB_get_memoizes_scalar_witness:
  \<open>\<not> is_object (JStr ''Steve'')
   \<and> fst (RealTimeDB_get example_parse example_db ''users/steve/name'' (remote 200 ''"Steve"'' 1000))
       = Resolved (Json (JStr ''Steve''))
   \<and> map_of (cachedCollections (fst (snd
        (RealTimeDB_get example_parse example_db ''users/steve/name'' (remote 200 ''"Steve"'' 1000)))))
        ''users/steve/name''
       = Some (Json (JStr ''Steve''))\<close>
proof -
  let ?w = \<open>remote 200 ''"Steve"'' 1000\<close>
  let ?rq = "build_request example_db ''users/steve/name'' ''Get'' [] None"
  obtain r db' w' where
    a: "RealTimeDB_get example_parse example_db ''users/steve/name'' ?w = (r, db', w')"
    by (cases "RealTimeDB_get example_parse example_db ''users/steve/name'' ?w")
  have h1: "map_of (cachedCollections example_db) ''users/steve/name'' = None"
    and h3: "status (server ?w (sent ?w) ?rq) = 200"
    and h4: "example_parse (body (server ?w (sent ?w) ?rq)) = Some (JStr ''Steve'')"
    and h5: "\<not> is_object (JStr ''Steve'')"
    by (simp_all add: example_db_eq remote_def example_parse_def)
  from RealTimeDB_get_memoizes_scalar [OF h1 refl h3 h4 a] h5
  have "r = Resolved (Json (JStr ''Steve''))"
    "map_of (cachedCollections db') ''users/steve/name'' = Some (Json (JStr ''Steve''))"
    by blast+
  with h5 show ?thesis
    unfolding a by simp
qed

text \<open>
  The claim as stated fails on the scalar body \<^verbatim>\<open>"Steve"\<close>: the first \<^verbatim>\<open>get\<close> stores the
  scalar under the path, and a second \<^verbatim>\<open>get\<close>, made when the remote value has become 2,
  returns the stored scalar and sends no request.
\<close>

theorem RealTimeDB_get_scalar_counterexample:
  \<open>RealTimeDB_get example_parse example_db ''users/steve/name'' (remote 200 ''"Steve"'' 1000)
     = (Resolved (Json (JStr ''Steve'')),
        example_db\<lparr>cachedCollections := [(''users/steve/name'', Json (JStr ''Steve''))]\<rparr>,
        (remote 200 ''"Steve"'' 1005)
          \<lparr>sent := [build_request example_db ''users/steve/name'' ''Get'' [] None]\<rparr>)
   \<and> RealTimeDB_get example_parse
        (example_db\<lparr>cachedCollections := [(''users/steve/name'', Json (JStr ''Steve''))]\<rparr>)
        ''users/steve/name'' (remote 200 ''2'' 9000)
     = (Resolved (Json (JStr ''Steve'')),
        example_db\<lparr>cachedCollections := [(''users/steve/name'', Json (JStr ''Steve''))]\<rparr>,
        remote 200 ''2'' 9000)
   \<and> sent (remote 200 ''2'' 9000) = []\<close>
  by (simp add: RealTimeDB_get_def sendRequest_eq example_parse_def example_db_eq remote_def)

text \<open>
  C2 (the code at a failing input). Right after construction the readiness promise of
  the controller is pending and \<^verbatim>\<open>onReady\<close> is blocked, yet \<^verbatim>\<open>get\<close> resolves with the
  remote value. On a node whose first fetch is still out, \<^verbatim>\<open>get\<close> is blocked, yet \<^verbatim>\<open>set\<close>
  resolves and assigns the value, which the answer to the first fetch then overwrites.
\<close>

theorem get_and_set_resolve_before_ready:
  \<open>readyPromise (fst (RealTimeDB_new ''proj-default-rtdb'' ''abc'' None (remote 200 ''"Steve"'' 1000)))
     = Pending
   \<and> onReady (fst (RealTimeDB_new ''proj-default-rtdb'' ''abc'' None (remote 200 ''"Steve"'' 1000)))
     = Blocked
   \<and> fst (RealTimeDB_get example_parse
        (fst (RealTimeDB_new ''proj-default-rtdb'' ''abc'' None (remote 200 ''"Steve"'' 1000)))
        ''users/steve/name''
        (snd (RealTimeDB_new ''proj-default-rtdb'' ''abc'' None (remote 200 ''"Steve"'' 1000))))
     = Resolved (Json (JStr ''Steve''))
   \<and> ready pending_node = Pending
   \<and> fst (Collection_get example_parse example_db pending_node False pending_world)
     = Blocked
   \<and> fst (Collection_set example_stringify example_db pending_node (Json (JNum 2)) pending_world)
     = Resolved ()
   \<and> fst (snd (Collection_set example_stringify example_db pending_node (Json (JNum 2))
        pending_world))
     = Collection (Json (JNum 2)) ''users/steve/age'' None Pending
   \<and> cache (Collection_settle example_parse example_db
        (Collection (Json (JNum 2)) ''users/steve/age'' None Pending)
        \<lparr>status = 200, body = ''1''\<rparr> 1005)
     = Json (JNum 1)\<close>
  by (simp add: RealTimeDB_new_def RealTimeDB_get_def onReady_def sendRequest_eq issue_def Let_def
      Collection_get_def Collection_set_def updateDatabase_def set_cache_def
      Collection_settle_def updateCache_resume_def set_expiresAt_def set_ready_def
      example_parse_def example_node_eq pending_world_eq remote_def)

text \<open>
  C3 (the code at a failing input). For the path \<^verbatim>\<open>users\<close> and the body
  \<^verbatim>\<open>{"steve":{"name":"Steve"}}\<close>, \<^verbatim>\<open>get\<close> returns one node for the key \<^verbatim>\<open>steve\<close>, seeded with
  the sub-value, whose path is the key \<^verbatim>\<open>steve\<close> and not \<^verbatim>\<open>users/steve\<close>: a refresh of that
  node asks the remote store for \<^verbatim>\<open>/steve.json\<close>.
\<close>

theorem objectToCollections_child_path_is_key:
  \<open>fst (RealTimeDB_get example_parse example_db ''users''
          (remote 200 ''{"steve":{"name":"Steve"}}'' 1000))
     = Resolved (CollectionMap
         [(''steve'', Collection (Json (JObj [(''name'', JStr ''Steve'')])) ''steve''
                        (Some 301005) Fulfilled)])
   \<and> path (Collection (Json (JObj [(''name'', JStr ''Steve'')])) ''steve'' (Some 301005) Fulfilled)
       \<noteq> ''users/steve''
   \<and> map uri (sent (snd (snd (Collection_get example_parse example_db
         (Collection (Json (JObj [(''name'', JStr ''Steve'')])) ''steve'' (Some 301005) Fulfilled)
         True (remote 200 ''{"name":"Steve"}'' 2000)))))
       = [''https://proj-default-rtdb.firebaseio.com/steve.json?auth=abc'']\<close>
  by (simp add: RealTimeDB_get_def sendRequest_eq objectToCollections_def Object_keys_def
      property_def Collection_new_def Collection_get_def updateCache_eq build_request_def Let_def
      example_parse_def example_db_eq remote_def)

subsection \<open>The constructor of Collection\<close>

text \<open>
  C7 (the code at a failing input). Constructed with the value 0, \<^verbatim>\<open>null\<close>, \<^verbatim>\<open>false\<close> or
  the empty string, the node holds no value and no \<^verbatim>\<open>expiresAt\<close>, its \<^verbatim>\<open>ready\<close> promise is
  pending, and a GET for its path has been sent.
\<close>

theorem Collection_new_drops_falsy_value:
  "Collection_new example_db ''users/steve/age'' (Json (JNum 0)) (remote 200 ''1'' 1000)
     = (Collection Undefined ''users/steve/age'' None Pending,
        (remote 200 ''1'' 1000)
          \<lparr>sent := [build_request example_db ''users/steve/age'' ''Get'' [] None]\<rparr>)
   \<and> fst (Collection_new example_db ''users/steve/age'' (Json JNull) (remote 200 ''1'' 1000))
     = Collection Undefined ''users/steve/age'' None Pending
   \<and> fst (Collection_new example_db ''users/steve/age'' (Json (JBool False)) (remote 200 ''1'' 1000))
     = Collection Undefined ''users/steve/age'' None Pending
   \<and> fst (Collection_new example_db ''users/steve/age'' (Json (JStr [])) (remote 200 ''1'' 1000))
     = Collection Undefined ''users/steve/age'' None Pending"
  by (simp add: Collection_new_def issue_def remote_def)


end
